theory Spec2Isabelle
  imports Complex_Main "HOL-Library.Monad_Syntax"
begin

section \<open>Values, exceptions and the log\<close>

text \<open>
  A finite Python \<^verbatim>\<open>float\<close>. \<open>Fin r\<close> is the float of value \<open>r\<close>, \<open>Fin 0\<close> being
  \<^verbatim>\<open>0.0\<close>; \<open>NZero\<close> is \<^verbatim>\<open>-0.0\<close>, which \<^verbatim>\<open>math.atan2\<close> tells from \<^verbatim>\<open>0.0\<close>.
  Rounding is not modelled: every real below the overflow threshold stands for a float,
  and an operation returns the exact result unless that result is out of range.
\<close>

datatype ffloat = Fin real | NZero

fun float_value :: "ffloat \<Rightarrow> real" where
  "float_value (Fin r) = r"
| "float_value NZero = 0"

fun sign_bit :: "ffloat \<Rightarrow> bool" where
  "sign_bit (Fin r) = (r < 0)"
| "sign_bit NZero = True"

text \<open>A float that the functions compute: finite, or \<^verbatim>\<open>inf\<close>.\<close>

datatype pyfloat = Finite ffloat | PosInf

text \<open>
  The arguments the numeric functions of \<^verbatim>\<open>iss_tracker_app.py\<close> can receive: an
  \<^verbatim>\<open>int\<close>, a finite \<^verbatim>\<open>float\<close>, a string, or \<^verbatim>\<open>None\<close>. The floats \<^verbatim>\<open>inf\<close> and
  \<^verbatim>\<open>nan\<close> are not among the arguments of this model.
\<close>

datatype pynum = PyInt int | PyFloat ffloat | NumStr string | NumNone

text \<open>
  The exceptions that the modelled code can raise. \<open>GeocoderError\<close> stands for any
  exception of the call to the geocoding service.
\<close>

datatype exn = TypeError | ValueError | KeyError | IndexError | OverflowError | GeocoderError

text \<open>Running a step on the result of the one before, unless that one raised.\<close>

definition ebind :: "exn + 'a \<Rightarrow> ('a \<Rightarrow> exn + 'b) \<Rightarrow> exn + 'b" where
  "ebind m f = (case m of Inl e \<Rightarrow> Inl e | Inr v \<Rightarrow> f v)"

text \<open>
  One call of the \<^verbatim>\<open>logging\<close> module. \<open>Debug p v\<close> stands for
  \<^verbatim>\<open>logging.debug(p + str(v))\<close>, \<open>Error m\<close> for \<^verbatim>\<open>logging.error(m)\<close>.
  The log is the only state the three core functions touch; every function takes the
  log and returns it extended.
\<close>

datatype log_entry = Debug string real | Error string

type_synonym log = "log_entry list"

section \<open>Arithmetic\<close>

text \<open>
  The least magnitude that rounds to infinity, \<open>2\<^sup>1\<^sup>0\<^sup>2\<^sup>4 - 2\<^sup>9\<^sup>7\<^sup>0\<close>: a result of this
  size or more is out of the range of a double.
\<close>

definition float_overflow :: real where
  "float_overflow = 2 ^ 1024 - 2 ^ 970"

text \<open>
  The conversion of an \<^verbatim>\<open>int\<close> to a \<^verbatim>\<open>float\<close>, which \<^verbatim>\<open>+\<close> applies to an integer
  operand beside a float and the \<^verbatim>\<open>math\<close> functions apply to an integer argument:
  \<^verbatim>\<open>OverflowError\<close> (int too large to convert to float) when it is out of range.
\<close>

definition int_to_float :: "int \<Rightarrow> exn + ffloat" where
  "int_to_float n =
     (if float_overflow \<le> \<bar>real_of_int n\<bar> then Inl OverflowError else Inr (Fin (real_of_int n)))"

text \<open>
  The argument conversion of the \<^verbatim>\<open>math\<close> functions: \<^verbatim>\<open>TypeError\<close> (must be real
  number) on a string or \<^verbatim>\<open>None\<close>.
\<close>

fun to_float :: "pynum \<Rightarrow> exn + ffloat" where
  "to_float (PyInt n) = int_to_float n"
| "to_float (PyFloat f) = Inr f"
| "to_float (NumStr s) = Inl TypeError"
| "to_float NumNone = Inl TypeError"

text \<open>The value of \<^verbatim>\<open>x ** 2\<close> or of a sum: an \<^verbatim>\<open>int\<close>, exact, or a \<^verbatim>\<open>float\<close>.\<close>

datatype pyvalue = VInt int | VFloat pyfloat

text \<open>
  \<^verbatim>\<open>v ** 2\<close>. An \<^verbatim>\<open>int\<close> is squared exactly. A \<^verbatim>\<open>float\<close> whose square is out of
  range raises \<^verbatim>\<open>OverflowError\<close> (numerical result out of range); the square of
  \<^verbatim>\<open>-0.0\<close> is \<^verbatim>\<open>0.0\<close>. A string or \<^verbatim>\<open>None\<close> raises \<^verbatim>\<open>TypeError\<close>.
\<close>

fun py_square :: "pynum \<Rightarrow> exn + pyvalue" where
  "py_square (PyInt n) = Inr (VInt (n * n))"
| "py_square (PyFloat f) =
     (if float_overflow \<le> (float_value f)\<^sup>2 then Inl OverflowError
      else Inr (VFloat (Finite (Fin ((float_value f)\<^sup>2)))))"
| "py_square (NumStr s) = Inl TypeError"
| "py_square NumNone = Inl TypeError"

text \<open>
  The sum of two floats that are not negative, as squares and their sums are: it raises
  nothing, and a sum out of range is \<^verbatim>\<open>inf\<close>.
\<close>

fun float_add :: "pyfloat \<Rightarrow> pyfloat \<Rightarrow> pyfloat" where
  "float_add PosInf b = PosInf"
| "float_add (Finite a) PosInf = PosInf"
| "float_add (Finite NZero) (Finite NZero) = Finite NZero"
| "float_add (Finite a) (Finite b) =
     (if float_overflow \<le> float_value a + float_value b then PosInf
      else Finite (Fin (float_value a + float_value b)))"

text \<open>
  \<^verbatim>\<open>a + b\<close> on such values: exact on two integers; beside a float an integer is
  converted first.
\<close>

fun py_add :: "pyvalue \<Rightarrow> pyvalue \<Rightarrow> exn + pyvalue" where
  "py_add (VInt a) (VInt b) = Inr (VInt (a + b))"
| "py_add (VInt a) (VFloat g) = ebind (int_to_float a) (\<lambda>f. Inr (VFloat (float_add (Finite f) g)))"
| "py_add (VFloat f) (VInt b) = ebind (int_to_float b) (\<lambda>g. Inr (VFloat (float_add f (Finite g))))"
| "py_add (VFloat f) (VFloat g) = Inr (VFloat (float_add f g))"

text \<open>
  \<^verbatim>\<open>math.sqrt\<close>: \<^verbatim>\<open>ValueError\<close> (math domain error) below zero; the root of
  \<^verbatim>\<open>inf\<close> is \<^verbatim>\<open>inf\<close> and that of \<^verbatim>\<open>-0.0\<close> is \<^verbatim>\<open>-0.0\<close>. An integer argument is
  converted first.
\<close>

fun float_sqrt :: "pyfloat \<Rightarrow> exn + pyfloat" where
  "float_sqrt PosInf = Inr PosInf"
| "float_sqrt (Finite NZero) = Inr (Finite NZero)"
| "float_sqrt (Finite (Fin r)) = (if r < 0 then Inl ValueError else Inr (Finite (Fin (sqrt r))))"

fun math_sqrt :: "pyvalue \<Rightarrow> exn + pyfloat" where
  "math_sqrt (VInt n) = ebind (int_to_float n) (\<lambda>f. float_sqrt (Finite f))"
| "math_sqrt (VFloat f) = float_sqrt f"

text \<open>
  The expressions \<^verbatim>\<open>x**2 + y**2\<close> and \<^verbatim>\<open>x**2 + y**2 + z**2\<close>, evaluated from left to
  right: \<^verbatim>\<open>x**2\<close>, \<^verbatim>\<open>y**2\<close>, their sum, \<^verbatim>\<open>z**2\<close>, the second sum. The first exception
  ends the evaluation.
\<close>

definition sum_squares2 :: "pynum \<Rightarrow> pynum \<Rightarrow> exn + pyvalue" where
  "sum_squares2 x y = ebind (py_square x) (\<lambda>sx. ebind (py_square y) (\<lambda>sy. py_add sx sy))"

definition sum_squares3 :: "pynum \<Rightarrow> pynum \<Rightarrow> pynum \<Rightarrow> exn + pyvalue" where
  "sum_squares3 x y z =
     ebind (sum_squares2 x y) (\<lambda>s. ebind (py_square z) (\<lambda>sz. py_add s sz))"

text \<open>\<^verbatim>\<open>math.sqrt(x**2 + y**2 + z**2)\<close>.\<close>

definition norm3 :: "pynum \<Rightarrow> pynum \<Rightarrow> pynum \<Rightarrow> exn + pyfloat" where
  "norm3 x y z = ebind (sum_squares3 x y z) math_sqrt"

text \<open>
  What the statements below say of numbers: whether an argument is one, its value, the
  float it converts to, whether a computed value is the finite number \<open>s\<close> (an integer,
  or a float other than \<^verbatim>\<open>-0.0\<close>), and whether a computed value is not negative.
\<close>

fun is_number :: "pynum \<Rightarrow> bool" where
  "is_number (PyInt n) = True"
| "is_number (PyFloat f) = True"
| "is_number (NumStr s) = False"
| "is_number NumNone = False"

fun num_value :: "pynum \<Rightarrow> real" where
  "num_value (PyInt n) = real_of_int n"
| "num_value (PyFloat f) = float_value f"
| "num_value (NumStr s) = 0"
| "num_value NumNone = 0"

fun float_of :: "pynum \<Rightarrow> ffloat" where
  "float_of (PyInt n) = Fin (real_of_int n)"
| "float_of (PyFloat f) = f"
| "float_of (NumStr s) = Fin 0"
| "float_of NumNone = Fin 0"

fun is_value :: "pyvalue \<Rightarrow> real \<Rightarrow> bool" where
  "is_value (VInt n) s = (real_of_int n = s)"
| "is_value (VFloat (Finite (Fin r))) s = (r = s)"
| "is_value (VFloat (Finite NZero)) s = False"
| "is_value (VFloat PosInf) s = False"

fun nonneg_value :: "pyvalue \<Rightarrow> bool" where
  "nonneg_value (VInt n) = (0 \<le> n)"
| "nonneg_value (VFloat (Finite f)) = (0 \<le> float_value f)"
| "nonneg_value (VFloat PosInf) = True"

section \<open>Speed calculator\<close>

definition speed_error_msg :: string where
  "speed_error_msg = ''Non numerical values detected. Calculation cannot be performed''"

text \<open>
  \<^verbatim>\<open>calc_speed_3d\<close>: the \<^verbatim>\<open>try\<close> catches \<^verbatim>\<open>TypeError\<close> only, and then the speed is
  \<^verbatim>\<open>0.0\<close>; any other exception leaves the function.
\<close>

definition calc_speed_3d :: "pynum \<Rightarrow> pynum \<Rightarrow> pynum \<Rightarrow> log \<Rightarrow> (exn + pyfloat) \<times> log" where
  "calc_speed_3d x y z lg =
     (case norm3 x y z of
        Inr speed \<Rightarrow> (Inr speed, lg)
      | Inl TypeError \<Rightarrow> (Inr (Finite (Fin 0)), lg @ [Error speed_error_msg])
      | Inl e \<Rightarrow> (Inl e, lg))"

section \<open>Strings, slices and indexing\<close>

text \<open>
  A string is a sequence of code points below 256, one \<open>char\<close> each; text with other
  code points is outside this model. \<^verbatim>\<open>s[i:j]\<close> for \<open>0 \<le> i \<le> j\<close> never fails: it
  is cut at the end of the string.
\<close>

definition slice :: "nat \<Rightarrow> nat \<Rightarrow> 'a list \<Rightarrow> 'a list" where
  "slice i j s = take (j - i) (drop i s)"

text \<open>
  \<^verbatim>\<open>xs[i]\<close>: a negative index counts from the end; outside the list the access
  raises \<^verbatim>\<open>IndexError\<close>.
\<close>

definition py_index :: "'a list \<Rightarrow> int \<Rightarrow> exn + 'a" where
  "py_index xs i =
     (let k = (if i < 0 then i + int (length xs) else i)
      in if k < 0 \<or> int (length xs) \<le> k then Inl IndexError else Inr (xs ! nat k))"

definition is_digit :: "char \<Rightarrow> bool" where
  "is_digit c = (48 \<le> (of_char c :: nat) \<and> (of_char c :: nat) \<le> 57)"

definition digit_val :: "char \<Rightarrow> int" where
  "digit_val c = int (of_char c) - 48"

text \<open>
  The white space that \<^verbatim>\<open>int()\<close> strips from both ends of a string: tab to carriage
  return (9 to 13), the space (32), and the two code points between 128 and 255 that
  are Unicode white space, \<^verbatim>\<open>\x85\<close> (133) and \<^verbatim>\<open>\xa0\<close> (160). The separators
  \<^verbatim>\<open>\x1c\<close> to \<^verbatim>\<open>\x1f\<close> are not stripped.
\<close>

definition is_space :: "char \<Rightarrow> bool" where
  "is_space c =
     (let n = (of_char c :: nat) in (9 \<le> n \<and> n \<le> 13) \<or> n = 32 \<or> n = 133 \<or> n = 160)"

definition strip :: "string \<Rightarrow> string" where
  "strip s = rev (dropWhile is_space (rev (dropWhile is_space s)))"

text \<open>
  The decimal digits of an integer literal: at least one digit, single underscores
  allowed between digits only. The flag says whether the previous character was a digit.
\<close>

fun int_digits :: "bool \<Rightarrow> int \<Rightarrow> string \<Rightarrow> int option" where
  "int_digits prev acc [] = (if prev then Some acc else None)"
| "int_digits prev acc (c # cs) =
     (if is_digit c then int_digits True (10 * acc + digit_val c) cs
      else if c = CHR ''_'' \<and> prev then int_digits False acc cs
      else None)"

text \<open>
  \<^verbatim>\<open>int(s)\<close> on a string, base ten; \<open>None\<close> is \<^verbatim>\<open>ValueError\<close>. The code calls it
  on slices of at most two characters.
\<close>

definition py_int :: "string \<Rightarrow> int option" where
  "py_int s =
     (case strip s of
        [] \<Rightarrow> None
      | c # cs \<Rightarrow>
          if c = CHR ''+'' then int_digits False 0 cs
          else if c = CHR ''-'' then map_option uminus (int_digits False 0 cs)
          else int_digits False 0 (c # cs))"

text \<open>
  The characters that can stand in the text of a decimal integer: a digit, white space,
  a sign, an underscore. A string with any other character is not an integer.
\<close>

definition int_char :: "char \<Rightarrow> bool" where
  "int_char c = (is_digit c \<or> is_space c \<or> c = CHR ''+'' \<or> c = CHR ''-'' \<or> c = CHR ''_'')"

section \<open>The time library\<close>

text \<open>
  \<^verbatim>\<open>current_location\<close> calls \<^verbatim>\<open>time.strptime(epoch, '%Y-%jT%H:%M:%S')\<close> and
  \<^verbatim>\<open>time.mktime\<close>. Both belong to the platform, so the model of \<^verbatim>\<open>current_location\<close>
  takes them as parameters. The definitions of this section are one instance, used to
  evaluate the functions on the inputs of the test suite: the parser of the format string
  above, and \<^verbatim>\<open>mktime\<close> for a process whose local time zone is UTC. \<^verbatim>\<open>mktime\<close>
  is taken to return for every parsed time: the \<^verbatim>\<open>OverflowError\<close> that it raises on
  a date outside the platform's range is not modelled.

  The date of a \<^verbatim>\<open>struct_time\<close> (year, month, day of month) is kept as its proleptic
  Gregorian ordinal, the number \<^verbatim>\<open>strptime\<close> computes from the year and the day of the
  year.
\<close>

record struct_time =
  tm_ordinal :: int
  tm_hour :: int
  tm_min :: int
  tm_sec :: int

definition digits_value :: "string \<Rightarrow> int" where
  "digits_value s = foldl (\<lambda>a c. 10 * a + digit_val c) 0 s"

text \<open>
  A numeric field of at most \<open>n\<close> digits: the digits up to the next character that is
  not one. Returns the value and the rest of the string.
\<close>

definition num_field :: "nat \<Rightarrow> string \<Rightarrow> (int \<times> string) option" where
  "num_field n s =
     (let d = takeWhile is_digit s
      in if 1 \<le> length d \<and> length d \<le> n then Some (digits_value d, dropWhile is_digit s)
         else None)"

text \<open>A literal character of the format; the match ignores case.\<close>

definition literal :: "char list \<Rightarrow> string \<Rightarrow> string option" where
  "literal cs s = (case s of [] \<Rightarrow> None | c # r \<Rightarrow> if c \<in> set cs then Some r else None)"

definition days_before_year :: "int \<Rightarrow> int" where
  "days_before_year y = 365 * (y - 1) + (y - 1) div 4 - (y - 1) div 100 + (y - 1) div 400"

definition max_ordinal :: int where
  "max_ordinal = 3652059"

text \<open>
  \<^verbatim>\<open>time.strptime(s, '%Y-%jT%H:%M:%S')\<close>; \<open>None\<close> is \<^verbatim>\<open>ValueError\<close>. Four digits of
  year (from 1), day of the year 1 to 366 in one to three digits, hour up to 23, minute
  up to 59, second up to 61, each in one or two digits, and nothing after the seconds.
\<close>

definition strptime_epoch :: "string \<Rightarrow> struct_time option" where
  "strptime_epoch s =
     (if 4 \<le> length s \<and> list_all is_digit (take 4 s) then
        do {
          let year = digits_value (take 4 s);
          s1 \<leftarrow> literal ''-'' (drop 4 s);
          (julian, s2) \<leftarrow> num_field 3 s1;
          s3 \<leftarrow> literal ''Tt'' s2;
          (hour, s4) \<leftarrow> num_field 2 s3;
          s5 \<leftarrow> literal '':'' s4;
          (minute, s6) \<leftarrow> num_field 2 s5;
          s7 \<leftarrow> literal '':'' s6;
          (second, s8) \<leftarrow> num_field 2 s7;
          if s8 = [] \<and> 1 \<le> julian \<and> julian \<le> 366 \<and> hour \<le> 23 \<and> minute \<le> 59 \<and> second \<le> 61
             \<and> 1 \<le> year \<and> days_before_year year + julian \<le> max_ordinal
          then Some \<lparr>tm_ordinal = days_before_year year + julian,
                     tm_hour = hour, tm_min = minute, tm_sec = second\<rparr>
          else None
        }
      else None)"

text \<open>\<^verbatim>\<open>time.mktime\<close> in UTC: seconds since 1970-01-01, whose ordinal is 719163.\<close>

definition mktime_utc :: "struct_time \<Rightarrow> real" where
  "mktime_utc tm =
     real_of_int ((tm_ordinal tm - 719163) * 86400 + tm_hour tm * 3600 + tm_min tm * 60 + tm_sec tm)"

section \<open>Epoch selector\<close>

text \<open>
  A value stored in a state-vector dictionary: the \<^verbatim>\<open>EPOCH\<close> text, or a nested
  dictionary such as \<^verbatim>\<open>{'@units': 'km', '#text': '...'}\<close>.
\<close>

datatype pyval = Str string | Dict "(string \<times> string) list"

type_synonym pydict = "string \<rightharpoonup> pyval"

definition time_error_msg :: string where
  "time_error_msg = ''Invalid time format, ensure that the epoch timestring is in the format '' @
     [CHR 0x27] @ ''yyyy-dddThh:mm:ss.xxxZ'' @ [CHR 0x27] @ ''. Empty python dictionary returned.''"

text \<open>
  The three lines that turn an item into its epoch time:
  \<^verbatim>\<open>item[key_string][:17]\<close>, \<^verbatim>\<open>time.strptime\<close>, \<^verbatim>\<open>time.mktime\<close>. They raise
  \<^verbatim>\<open>KeyError\<close> for a missing key, \<^verbatim>\<open>TypeError\<close> for a value that is not a string
  (a dictionary cannot be sliced), \<^verbatim>\<open>ValueError\<close> when \<^verbatim>\<open>strptime\<close> rejects the text.
\<close>

definition epoch_time_of ::
  "(string \<Rightarrow> 'tm option) \<Rightarrow> ('tm \<Rightarrow> real) \<Rightarrow> string \<Rightarrow> pydict \<Rightarrow> exn + real" where
  "epoch_time_of strptime mktime key_string item =
     (case item key_string of
        None \<Rightarrow> Inl KeyError
      | Some (Dict d) \<Rightarrow> Inl TypeError
      | Some (Str s) \<Rightarrow>
          (case strptime (slice 0 17 s) of
             None \<Rightarrow> Inl ValueError
           | Some epoch_time_obj \<Rightarrow> Inr (mktime epoch_time_obj)))"

text \<open>
  The \<^verbatim>\<open>for\<close> loop of \<^verbatim>\<open>current_location\<close>, from the items still to visit and the
  value of \<^verbatim>\<open>curr_index\<close>. It returns the index at which the loop stops (by
  \<^verbatim>\<open>break\<close> or at the end of the list) or the exception that ends it.
\<close>

fun scan_epochs ::
  "(string \<Rightarrow> 'tm option) \<Rightarrow> ('tm \<Rightarrow> real) \<Rightarrow> string \<Rightarrow> real \<Rightarrow> pydict list \<Rightarrow> nat \<Rightarrow> log
    \<Rightarrow> (exn + nat) \<times> log" where
  "scan_epochs strptime mktime key_string current_time [] curr_index lg = (Inr curr_index, lg)"
| "scan_epochs strptime mktime key_string current_time (item # items) curr_index lg =
     (case epoch_time_of strptime mktime key_string item of
        Inl e \<Rightarrow> (Inl e, lg)
      | Inr epoch_time \<Rightarrow>
          if current_time < epoch_time
          then (Inr curr_index, lg @ [Debug ''epoch time: '' epoch_time])
          else scan_epochs strptime mktime key_string current_time items (curr_index + 1) lg)"

text \<open>
  \<^verbatim>\<open>current_location\<close>. \<open>current_time\<close> is the value that \<^verbatim>\<open>time.time()\<close> returns
  in the first line of the function. The \<^verbatim>\<open>except\<close> clause catches
  \<^verbatim>\<open>ValueError\<close> only; the final access \<^verbatim>\<open>list_of_dicts[curr_index-1]\<close> is outside
  the \<^verbatim>\<open>try\<close>.
\<close>

definition current_location ::
  "(string \<Rightarrow> 'tm option) \<Rightarrow> ('tm \<Rightarrow> real) \<Rightarrow> real \<Rightarrow> pydict list \<Rightarrow> string \<Rightarrow> log
    \<Rightarrow> (exn + pydict) \<times> log" where
  "current_location strptime mktime current_time list_of_dicts key_string lg =
     (let lg0 = lg @ [Debug ''current time: '' current_time]
      in case scan_epochs strptime mktime key_string current_time list_of_dicts 0 lg0 of
           (Inl ValueError, lg1) \<Rightarrow> (Inr Map.empty, lg1 @ [Error time_error_msg])
         | (Inl e, lg1) \<Rightarrow> (Inl e, lg1)
         | (Inr curr_index, lg1) \<Rightarrow> (py_index list_of_dicts (int curr_index - 1), lg1))"

text \<open>The records of \<^verbatim>\<open>test_current_location\<close> in the test suite.\<close>

definition rec_2024 :: pydict where
  "rec_2024 = [''epoch'' \<mapsto> Str ''2024-045T12:00:00.000Z'']"

definition rec_2034 :: pydict where
  "rec_2034 = [''epoch'' \<mapsto> Str ''2034-045T12:00:00.000Z'']"

section \<open>Location estimator\<close>

definition MEAN_EARTH_RADIUS :: real where
  "MEAN_EARTH_RADIUS = 6378.1"

text \<open>
  \<^verbatim>\<open>math.atan2(y, x)\<close> on a finite \<open>y\<close> and an \<open>x\<close> that is finite or \<^verbatim>\<open>inf\<close>. With
  \<open>x\<close> infinite the angle is a zero with the sign of \<open>y\<close>. A zero \<open>y\<close> gives a zero
  with its sign when the sign bit of \<open>x\<close> is clear, and \<open>pi\<close> with its sign when it is
  set. A zero \<open>x\<close> gives a right angle. The other cases are the arc tangent of the
  quotient, moved by \<open>pi\<close> when \<open>x\<close> is negative.
\<close>

fun float_atan2 :: "ffloat \<Rightarrow> pyfloat \<Rightarrow> ffloat" where
  "float_atan2 y PosInf = (if sign_bit y then NZero else Fin 0)"
| "float_atan2 y (Finite x) =
     (if float_value y = 0 then
        (if sign_bit x then (if sign_bit y then Fin (- pi) else Fin pi)
         else (if sign_bit y then NZero else Fin 0))
      else if float_value x = 0 then
        (if 0 < float_value y then Fin (pi / 2) else Fin (- (pi / 2)))
      else if 0 < float_value x then Fin (arctan (float_value y / float_value x))
      else if 0 < float_value y then Fin (arctan (float_value y / float_value x) + pi)
      else Fin (arctan (float_value y / float_value x) - pi))"

text \<open>\<^verbatim>\<open>math.degrees\<close>; it keeps the sign of a zero.\<close>

fun math_degrees :: "ffloat \<Rightarrow> ffloat" where
  "math_degrees (Fin r) = Fin (r * (180 / pi))"
| "math_degrees NZero = NZero"

text \<open>The \<^verbatim>\<open>if\<close>/\<^verbatim>\<open>elif\<close> that brings the longitude back after the rotation.\<close>

definition wrap_longitude :: "real \<Rightarrow> real" where
  "wrap_longitude longitude =
     (if longitude > 180 then - 180 + (longitude - 180)
      else if longitude < - 180 then 180 + (longitude + 180)
      else longitude)"

text \<open>
  An element of the returned list: \<open>StrOf r\<close> stands for \<^verbatim>\<open>str(r)\<close> of a float,
  \<open>Text s\<close> for the string \<open>s\<close>.
\<close>

datatype pystr = StrOf pyfloat | Text string

definition location_error_msg :: string where
  "location_error_msg = ''Invalid time format, ensure that the epoch timestring is in the format '' @
     [CHR 0x27] @ ''yyyy-dddThh:mm:ss.xxxZ'' @ [CHR 0x27] @ ''. Empty list returned.''"

text \<open>
  \<^verbatim>\<open>math.degrees(math.atan2(z, math.sqrt(x**2 + y**2)))\<close>: the square root is evaluated
  before \<^verbatim>\<open>atan2\<close> converts \<open>z\<close>.
\<close>

definition latitude_of :: "pynum \<Rightarrow> pynum \<Rightarrow> pynum \<Rightarrow> exn + ffloat" where
  "latitude_of x y z =
     ebind (sum_squares2 x y) (\<lambda>s.
     ebind (math_sqrt s) (\<lambda>r.
     ebind (to_float z) (\<lambda>zf.
     Inr (math_degrees (float_atan2 zf r)))))"

text \<open>
  \<^verbatim>\<open>math.degrees(math.atan2(y, x)) - ((hrs-12)+(mins/60))*(360/24) + 19\<close>. The angle is
  finite and the hour and the minute have at most two digits, so the arithmetic is that
  of the values; the sign of a zero angle is lost in it, and the result is never
  \<^verbatim>\<open>-0.0\<close>.
\<close>

definition longitude_of :: "pynum \<Rightarrow> pynum \<Rightarrow> int \<Rightarrow> int \<Rightarrow> exn + real" where
  "longitude_of x y hrs mins =
     ebind (to_float y) (\<lambda>yf.
     ebind (to_float x) (\<lambda>xf.
     Inr (float_value (math_degrees (float_atan2 yf (Finite xf)))
          - (real_of_int (hrs - 12) + real_of_int mins / 60) * (360 / 24) + 19)))"

text \<open>\<^verbatim>\<open>math.sqrt(x**2 + y**2 + z**2) - MEAN_EARTH_RADIUS\<close>.\<close>

definition altitude_of :: "pynum \<Rightarrow> pynum \<Rightarrow> pynum \<Rightarrow> exn + pyfloat" where
  "altitude_of x y z =
     ebind (norm3 x y z) (\<lambda>r.
     Inr (case r of
            PosInf \<Rightarrow> PosInf
          | Finite f \<Rightarrow> Finite (Fin (float_value f - MEAN_EARTH_RADIUS))))"

text \<open>
  The body of \<^verbatim>\<open>find_location\<close> after the \<^verbatim>\<open>try\<close>. Nothing here is inside a
  \<^verbatim>\<open>try\<close> but the read of \<^verbatim>\<open>.address\<close>: an exception of the arithmetic or of the
  geocoding call leaves the function, with the debug entry in the log when it comes
  after it. \<open>reverse\<close> is the call \<^verbatim>\<open>geocoder.reverse((latitude, longitude), ...)\<close>: it
  raises, or returns the address of the location it found, or \<open>None\<close> when it found
  none (reading \<^verbatim>\<open>.address\<close> then raises the \<^verbatim>\<open>AttributeError\<close> that the code catches).
\<close>

definition locate ::
  "(ffloat \<Rightarrow> ffloat \<Rightarrow> exn + string option) \<Rightarrow> pynum \<Rightarrow> pynum \<Rightarrow> pynum \<Rightarrow> int \<Rightarrow> int \<Rightarrow> log
    \<Rightarrow> (exn + pystr list) \<times> log" where
  "locate reverse x y z hrs mins lg =
     (case latitude_of x y z of
        Inl e \<Rightarrow> (Inl e, lg)
      | Inr latitude \<Rightarrow>
     (case longitude_of x y hrs mins of
        Inl e \<Rightarrow> (Inl e, lg)
      | Inr longitude0 \<Rightarrow>
          let lg1 = lg @ [Debug ''longitude before conversion'' longitude0];
              longitude = wrap_longitude longitude0
          in (case altitude_of x y z of
                Inl e \<Rightarrow> (Inl e, lg1)
              | Inr altitude \<Rightarrow>
             (case reverse latitude (Fin longitude) of
                Inl e \<Rightarrow> (Inl e, lg1)
              | Inr geolocation \<Rightarrow>
                  (Inr [StrOf (Finite latitude), StrOf (Finite (Fin longitude)), StrOf altitude,
                        Text (case geolocation of
                                Some address \<Rightarrow> address
                              | None \<Rightarrow> ''Over Ocean'')],
                   lg1)))))"

text \<open>
  \<^verbatim>\<open>find_location\<close>. The \<^verbatim>\<open>try\<close> around the two \<^verbatim>\<open>int()\<close> calls catches
  \<^verbatim>\<open>ValueError\<close>, and then the result is the empty list.
\<close>

definition find_location ::
  "(ffloat \<Rightarrow> ffloat \<Rightarrow> exn + string option) \<Rightarrow> pynum \<Rightarrow> pynum \<Rightarrow> pynum \<Rightarrow> string \<Rightarrow> log
    \<Rightarrow> (exn + pystr list) \<times> log" where
  "find_location reverse x y z epoch lg =
     (case py_int (slice 9 11 epoch) of
        None \<Rightarrow> (Inr [], lg @ [Error location_error_msg])
      | Some hrs \<Rightarrow>
     (case py_int (slice 12 14 epoch) of
        None \<Rightarrow> (Inr [], lg @ [Error location_error_msg])
      | Some mins \<Rightarrow> locate reverse x y z hrs mins lg))"

section \<open>Properties of the speed calculator\<close>

lemma float_overflow_gt: "1 < float_overflow"
  by (simp add: float_overflow_def)

lemma py_square_number:
  assumes "is_number x" and "(num_value x)\<^sup>2 < float_overflow"
  shows "\<exists>v. py_square x = Inr v \<and> is_value v ((num_value x)\<^sup>2)"
  using assms by (cases x) (simp_all add: power2_eq_square)

lemma py_square_not_number: "\<not> is_number x \<Longrightarrow> py_square x = Inl TypeError"
  by (cases x) simp_all

lemma int_to_float_in_range:
  "0 \<le> real_of_int n \<Longrightarrow> real_of_int n < float_overflow \<Longrightarrow> int_to_float n = Inr (Fin (real_of_int n))"
  by (simp add: int_to_float_def)

lemma is_value_float: "is_value (VFloat g) t \<Longrightarrow> g = Finite (Fin t)"
  by (cases g rule: float_sqrt.cases) simp_all

lemma py_add_values:
  assumes "is_value a s" and "is_value b t" and "0 \<le> s" and "0 \<le> t" and "s + t < float_overflow"
  shows "\<exists>v. py_add a b = Inr v \<and> is_value v (s + t)"
proof -
  from assms(3-5) have s: "s < float_overflow" and t: "t < float_overflow"
    by simp_all
  show ?thesis
  proof (cases a)
    case (VInt m)
    with assms(1) have m: "real_of_int m = s" by simp
    with assms(3) s have ma: "int_to_float m = Inr (Fin s)"
      using int_to_float_in_range [of m] by simp
    show ?thesis
    proof (cases b)
      case n: (VInt n)
      with assms(2) m VInt show ?thesis by simp
    next
      case (VFloat g)
      with assms(2) have "g = Finite (Fin t)"
        by (simp add: is_value_float)
      with VFloat VInt ma assms(5) show ?thesis
        by (simp add: ebind_def)
    qed
  next
    case (VFloat f)
    with assms(1) have f: "f = Finite (Fin s)"
      by (simp add: is_value_float)
    show ?thesis
    proof (cases b)
      case (VInt n)
      with assms(2) have n: "real_of_int n = t" by simp
      with assms(4) t have "int_to_float n = Inr (Fin t)"
        using int_to_float_in_range [of n] by simp
      with VInt VFloat f assms(5) show ?thesis
        by (simp add: ebind_def)
    next
      case g: (VFloat g)
      with assms(2) have "g = Finite (Fin t)"
        by (simp add: is_value_float)
      with g VFloat f assms(5) show ?thesis
        by simp
    qed
  qed
qed

lemma math_sqrt_value:
  assumes "is_value v s" and "0 \<le> s" and "s < float_overflow"
  shows "math_sqrt v = Inr (Finite (Fin (sqrt s)))"
proof (cases v)
  case (VInt n)
  with assms have "int_to_float n = Inr (Fin s)"
    using int_to_float_in_range [of n] by simp
  with VInt assms(2) show ?thesis
    by (simp add: ebind_def)
next
  case (VFloat f)
  with assms(1) have "f = Finite (Fin s)"
    by (simp add: is_value_float)
  with VFloat assms(2) show ?thesis by simp
qed

lemma sum_part_less: "0 \<le> b \<Longrightarrow> a + b < c \<Longrightarrow> a < (c::real)"
  and sum_part_less': "0 \<le> a \<Longrightarrow> a + b < c \<Longrightarrow> b < (c::real)"
  by simp_all

lemma sum_squares2_value:
  assumes x: "is_number x" and y: "is_number y"
    and range: "(num_value x)\<^sup>2 + (num_value y)\<^sup>2 < float_overflow"
  shows "\<exists>v. sum_squares2 x y = Inr v \<and> is_value v ((num_value x)\<^sup>2 + (num_value y)\<^sup>2)"
proof -
  have nx: "0 \<le> (num_value x)\<^sup>2" and ny: "0 \<le> (num_value y)\<^sup>2"
    by (rule zero_le_power2)+
  from py_square_number [OF x sum_part_less [OF ny range]]
  obtain a where a: "py_square x = Inr a" and va: "is_value a ((num_value x)\<^sup>2)"
    by (elim exE conjE)
  from py_square_number [OF y sum_part_less' [OF nx range]]
  obtain b where b: "py_square y = Inr b" and vb: "is_value b ((num_value y)\<^sup>2)"
    by (elim exE conjE)
  from py_add_values [OF va vb nx ny range] a b show ?thesis
    by (simp add: sum_squares2_def ebind_def)
qed

lemma sum_squares3_value:
  assumes x: "is_number x" and y: "is_number y" and z: "is_number z"
    and range: "(num_value x)\<^sup>2 + (num_value y)\<^sup>2 + (num_value z)\<^sup>2 < float_overflow"
  shows "\<exists>v. sum_squares3 x y z = Inr v
           \<and> is_value v ((num_value x)\<^sup>2 + (num_value y)\<^sup>2 + (num_value z)\<^sup>2)"
proof -
  have nxy: "0 \<le> (num_value x)\<^sup>2 + (num_value y)\<^sup>2"
    by (intro add_nonneg_nonneg zero_le_power2)
  have nz: "0 \<le> (num_value z)\<^sup>2"
    by (rule zero_le_power2)
  from sum_squares2_value [OF x y sum_part_less [OF nz range]]
  obtain a where a: "sum_squares2 x y = Inr a"
    and va: "is_value a ((num_value x)\<^sup>2 + (num_value y)\<^sup>2)"
    by (elim exE conjE)
  from py_square_number [OF z sum_part_less' [OF nxy range]]
  obtain b where b: "py_square z = Inr b" and vb: "is_value b ((num_value z)\<^sup>2)"
    by (elim exE conjE)
  from py_add_values [OF va vb nxy nz range] a b show ?thesis
    by (simp add: sum_squares3_def ebind_def)
qed

lemma norm3_in_range:
  assumes x: "is_number x" and y: "is_number y" and z: "is_number z"
    and range: "(num_value x)\<^sup>2 + (num_value y)\<^sup>2 + (num_value z)\<^sup>2 < float_overflow"
  shows "norm3 x y z = Inr (Finite (Fin (sqrt ((num_value x)\<^sup>2 + (num_value y)\<^sup>2 + (num_value z)\<^sup>2))))"
proof -
  from sum_squares3_value [OF assms]
  obtain v where v: "sum_squares3 x y z = Inr v"
    and vv: "is_value v ((num_value x)\<^sup>2 + (num_value y)\<^sup>2 + (num_value z)\<^sup>2)"
    by (elim exE conjE)
  have "0 \<le> (num_value x)\<^sup>2 + (num_value y)\<^sup>2 + (num_value z)\<^sup>2"
    by (intro add_nonneg_nonneg zero_le_power2)
  from math_sqrt_value [OF vv this range] v show ?thesis
    by (simp add: norm3_def ebind_def)
qed

lemma py_square_nonneg: "py_square x = Inr v \<Longrightarrow> nonneg_value v"
  by (cases x) (auto split: if_splits)

lemma py_square_raises: "py_square x = Inl e \<Longrightarrow> e = TypeError \<or> e = OverflowError"
  by (cases x) (auto split: if_splits)

lemma int_to_float_cases:
  "int_to_float n = Inl OverflowError \<or> int_to_float n = Inr (Fin (real_of_int n))"
  by (simp add: int_to_float_def)

lemma float_add_nonneg:
  "nonneg_value (VFloat f) \<Longrightarrow> nonneg_value (VFloat g) \<Longrightarrow> nonneg_value (VFloat (float_add f g))"
  by (cases "(f, g)" rule: float_add.cases) simp_all

lemma py_add_nonneg:
  assumes "nonneg_value a" and "nonneg_value b" and "py_add a b = Inr v"
  shows "nonneg_value v"
proof (cases a)
  case a: (VInt m)
  show ?thesis
  proof (cases b)
    case (VInt n)
    with a assms show ?thesis by auto
  next
    case (VFloat g)
    with a assms int_to_float_cases [of m]
    have "v = VFloat (float_add (Finite (Fin (real_of_int m))) g)"
      by (auto simp: ebind_def)
    moreover from a assms(1) have "nonneg_value (VFloat (Finite (Fin (real_of_int m))))"
      by simp
    ultimately show ?thesis
      using VFloat assms(2) by (simp add: float_add_nonneg)
  qed
next
  case a: (VFloat f)
  show ?thesis
  proof (cases b)
    case (VInt n)
    with a assms int_to_float_cases [of n]
    have "v = VFloat (float_add f (Finite (Fin (real_of_int n))))"
      by (auto simp: ebind_def)
    moreover from VInt assms(2) have "nonneg_value (VFloat (Finite (Fin (real_of_int n))))"
      by simp
    ultimately show ?thesis
      using a assms(1) by (simp add: float_add_nonneg)
  next
    case (VFloat g)
    with a assms show ?thesis
      by (auto simp: float_add_nonneg)
  qed
qed

lemma int_to_float_raises: "int_to_float n = Inl e \<Longrightarrow> e = OverflowError"
  by (simp add: int_to_float_def split: if_splits)

lemma py_add_raises: "py_add a b = Inl e \<Longrightarrow> e = OverflowError"
  by (cases "(a, b)" rule: py_add.cases)
    (auto simp: ebind_def split: sum.splits dest: int_to_float_raises)

lemma float_sqrt_nonneg: "nonneg_value (VFloat f) \<Longrightarrow> \<exists>r. float_sqrt f = Inr r"
  by (cases f rule: float_sqrt.cases) simp_all

lemma math_sqrt_raises:
  assumes "nonneg_value v" and "math_sqrt v = Inl e"
  shows "e = OverflowError"
proof (cases v)
  case (VInt n)
  from assms(1) VInt have "\<exists>r. float_sqrt (Finite (Fin (real_of_int n))) = Inr r"
    by simp
  with VInt assms(2) int_to_float_cases [of n] show ?thesis
    by (auto simp: ebind_def)
next
  case (VFloat f)
  with assms float_sqrt_nonneg [of f] show ?thesis
    by auto
qed

lemma sum_squares2_raises: "sum_squares2 x y = Inl e \<Longrightarrow> e = TypeError \<or> e = OverflowError"
  by (auto simp: sum_squares2_def ebind_def split: sum.splits
      dest: py_square_raises py_add_raises)

lemma sum_squares2_nonneg: "sum_squares2 x y = Inr v \<Longrightarrow> nonneg_value v"
  by (auto simp: sum_squares2_def ebind_def split: sum.splits
      dest: py_square_nonneg intro: py_add_nonneg)

lemma sum_squares3_raises: "sum_squares3 x y z = Inl e \<Longrightarrow> e = TypeError \<or> e = OverflowError"
  by (auto simp: sum_squares3_def ebind_def split: sum.splits
      dest: sum_squares2_raises py_square_raises py_add_raises)

lemma sum_squares3_nonneg: "sum_squares3 x y z = Inr v \<Longrightarrow> nonneg_value v"
  by (auto simp: sum_squares3_def ebind_def split: sum.splits
      dest: sum_squares2_nonneg py_square_nonneg intro: py_add_nonneg)

lemma norm3_raises: "norm3 x y z = Inl e \<Longrightarrow> e = TypeError \<or> e = OverflowError"
  by (auto simp: norm3_def ebind_def split: sum.splits
      dest: sum_squares3_raises sum_squares3_nonneg math_sqrt_raises)

lemma calc_speed_3d_raises: "fst (calc_speed_3d x y z lg) = Inl e \<Longrightarrow> e = OverflowError"
  by (auto simp: calc_speed_3d_def split: sum.splits exn.splits dest: norm3_raises)

lemma calc_speed_3d_log:
  "snd (calc_speed_3d x y z lg) = lg \<or> snd (calc_speed_3d x y z lg) = lg @ [Error speed_error_msg]"
  by (simp add: calc_speed_3d_def split: sum.split exn.split)

lemma py_add_returns:
  assumes "is_value a s" and "is_value b t" and "0 \<le> s" and "0 \<le> t"
    and "s < float_overflow" and "t < float_overflow"
  shows "\<exists>v. py_add a b = Inr v"
proof (cases a)
  case a: (VInt m)
  with assms have ma: "int_to_float m = Inr (Fin s)"
    using int_to_float_in_range [of m] by simp
  show ?thesis
  proof (cases b)
    case (VInt n)
    with a show ?thesis by simp
  next
    case (VFloat g)
    with a ma show ?thesis by (simp add: ebind_def)
  qed
next
  case a: (VFloat f)
  show ?thesis
  proof (cases b)
    case (VInt n)
    with assms have "int_to_float n = Inr (Fin t)"
      using int_to_float_in_range [of n] by simp
    with VInt a show ?thesis by (simp add: ebind_def)
  next
    case (VFloat g)
    with a show ?thesis by simp
  qed
qed

lemma norm3_first_not_number: "\<not> is_number x \<Longrightarrow> norm3 x y z = Inl TypeError"
  by (simp add: norm3_def sum_squares3_def sum_squares2_def ebind_def py_square_not_number)

lemma norm3_second_not_number:
  assumes x: "is_number x" and rx: "(num_value x)\<^sup>2 < float_overflow" and y: "\<not> is_number y"
  shows "norm3 x y z = Inl TypeError"
proof -
  from py_square_number [OF x rx] obtain a where "py_square x = Inr a"
    by (elim exE conjE)
  with y show ?thesis
    by (simp add: norm3_def sum_squares3_def sum_squares2_def ebind_def py_square_not_number)
qed

lemma norm3_third_not_number:
  assumes x: "is_number x" and y: "is_number y"
    and rx: "(num_value x)\<^sup>2 < float_overflow" and ry: "(num_value y)\<^sup>2 < float_overflow"
    and z: "\<not> is_number z"
  shows "norm3 x y z = Inl TypeError"
proof -
  from py_square_number [OF x rx] obtain a
    where a: "py_square x = Inr a" and va: "is_value a ((num_value x)\<^sup>2)"
    by (elim exE conjE)
  from py_square_number [OF y ry] obtain b
    where b: "py_square y = Inr b" and vb: "is_value b ((num_value y)\<^sup>2)"
    by (elim exE conjE)
  from py_add_returns [OF va vb zero_le_power2 zero_le_power2 rx ry]
  obtain s where "py_add a b = Inr s" ..
  with a b z show ?thesis
    by (simp add: norm3_def sum_squares3_def sum_squares2_def ebind_def py_square_not_number)
qed

lemma calc_speed_3d_in_range:
  assumes "is_number x" and "is_number y" and "is_number z"
    and "(num_value x)\<^sup>2 + (num_value y)\<^sup>2 + (num_value z)\<^sup>2 < float_overflow"
  shows "calc_speed_3d x y z lg
           = (Inr (Finite (Fin (sqrt ((num_value x)\<^sup>2 + (num_value y)\<^sup>2 + (num_value z)\<^sup>2)))), lg)"
  by (simp add: calc_speed_3d_def norm3_in_range [OF assms])

lemma small_in_range: "s \<le> 100 \<Longrightarrow> s < float_overflow"
  using float_overflow_gt by (simp add: float_overflow_def)




text \<open>
  With the integer \<open>10\<^sup>2\<^sup>0\<^sup>0\<close> the squares and the sum are exact, and it is
  \<^verbatim>\<open>math.sqrt\<close> that raises, when it converts the sum to a float.
\<close>

lemma calc_speed_3d_int_overflow:
  "calc_speed_3d (PyInt (10 ^ 200)) (PyInt 0) (PyInt 0) [] = (Inl OverflowError, [])"
  by (simp add: calc_speed_3d_def norm3_def sum_squares3_def sum_squares2_def ebind_def
      int_to_float_def float_overflow_def)




section \<open>Properties of the epoch selector\<close>

lemma py_index_nat: "k < length xs \<Longrightarrow> py_index xs (int k) = Inr (xs ! k)"
  unfolding py_index_def Let_def by simp

lemma py_index_minus_one: "xs \<noteq> [] \<Longrightarrow> py_index xs (- 1) = Inr (last xs)"
proof -
  assume ne: "xs \<noteq> []"
  then have len: "0 < length xs" by simp
  then have "nat (- 1 + int (length xs)) = length xs - 1"
    by linarith
  with ne len show ?thesis
    by (simp add: py_index_def last_conv_nth)
qed

lemma py_index_Nil: "py_index [] i = Inl IndexError"
  by (simp add: py_index_def)

lemma scan_epochs_index:
  "map (epoch_time_of sp mk key) items = map Inr ts \<Longrightarrow>
   fst (scan_epochs sp mk key now items i lg)
     = Inr (i + length (takeWhile (\<lambda>t. t \<le> now) ts))"
proof (induction items arbitrary: ts i)
  case Nil
  then show ?case by simp
next
  case (Cons item items)
  then obtain t ts' where ts: "ts = t # ts'"
    and t: "epoch_time_of sp mk key item = Inr t"
    and rest: "map (epoch_time_of sp mk key) items = map Inr ts'"
    by (cases ts) auto
  show ?case
  proof (cases "now < t")
    case True
    with t ts show ?thesis by simp
  next
    case False
    with t ts Cons.IH [OF rest, of "i + 1"] show ?thesis by simp
  qed
qed

lemma scan_epochs_log:
  "snd (scan_epochs sp mk key now items i lg) = lg @ snd (scan_epochs sp mk key now items j [])"
  by (induction items arbitrary: i j) (auto split: sum.split)

lemma scan_epochs_fst_log:
  "fst (scan_epochs sp mk key now items i lg) = fst (scan_epochs sp mk key now items i lg')"
  by (induction items arbitrary: i) (auto split: sum.split)

lemma scan_epochs_ValueError:
  assumes "map (epoch_time_of sp mk key) pre = map Inr ts"
    and "\<forall>t \<in> set ts. t \<le> now"
    and "epoch_time_of sp mk key r = Inl ValueError"
  shows "scan_epochs sp mk key now (pre @ r # post) i lg = (Inl ValueError, lg)"
  using assms
proof (induction pre arbitrary: ts i)
  case Nil
  then show ?case by simp
next
  case (Cons item pre)
  then obtain t ts' where ts: "ts = t # ts'"
    and t: "epoch_time_of sp mk key item = Inr t"
    and rest: "map (epoch_time_of sp mk key) pre = map Inr ts'"
    by (cases ts) auto
  from Cons.prems ts have le: "t \<le> now" and all: "\<forall>t \<in> set ts'. t \<le> now"
    by simp_all
  from Cons.IH [OF rest all Cons.prems(3), of "i + 1"] t le show ?case
    by simp
qed

text \<open>
  A parse failure is caught wherever the loop meets it: when the records before the
  rejected one all parse and none of them is after the current time, the result is
  the empty dictionary and one error entry.
\<close>

lemma current_location_ValueError_reached:
  assumes "map (epoch_time_of sp mk key) pre = map Inr ts"
    and "\<forall>t \<in> set ts. t \<le> now"
    and "epoch_time_of sp mk key r = Inl ValueError"
  shows "current_location sp mk now (pre @ r # post) key lg
           = (Inr Map.empty, lg @ [Debug ''current time: '' now, Error time_error_msg])"
  using scan_epochs_ValueError [OF assms, of post 0 "lg @ [Debug ''current time: '' now]"]
  by (simp add: current_location_def)

lemma current_location_index:
  assumes "fst (scan_epochs sp mk key now recs 0 (lg @ [Debug ''current time: '' now])) = Inr k"
  shows "fst (current_location sp mk now recs key lg) = py_index recs (int k - 1)"
proof -
  obtain r lg1
    where s: "scan_epochs sp mk key now recs 0 (lg @ [Debug ''current time: '' now]) = (r, lg1)"
    by (cases "scan_epochs sp mk key now recs 0 (lg @ [Debug ''current time: '' now])")
  with assms have "r = Inr k" by simp
  with s show ?thesis
    by (simp add: current_location_def)
qed

lemma epoch_time_2024:
  "epoch_time_of strptime_epoch mktime_utc ''epoch'' rec_2024 = Inr 1707912000"
  by code_simp

lemma epoch_time_2034:
  "epoch_time_of strptime_epoch mktime_utc ''epoch'' rec_2034 = Inr 2023531200"
  by code_simp

lemma epoch_time_malformed:
  "epoch_time_of strptime_epoch mktime_utc ''epoch'' [''epoch'' \<mapsto> Str ''2024-045''] = Inl ValueError"
  by code_simp

text \<open>
  C1. Let every record carry an epoch string that \<^verbatim>\<open>strptime\<close> accepts, \<open>ts\<close> being
  the epoch times in the order of the records, ascending, and let the first of them be
  at or before the current time. Then \<^verbatim>\<open>current_location\<close> returns the record at
  the last index whose epoch is not after the current time: its epoch is at or before
  the current time and every later record's epoch is strictly after it.
\<close>

theorem current_location_most_recent:
  assumes nonempty: "recs \<noteq> []"
    and parsed: "map (epoch_time_of strptime mktime key) recs = map Inr ts"
    and ascending: "sorted ts"
    and first: "hd ts \<le> now"
  shows "\<exists>i < length recs.
           fst (current_location strptime mktime now recs key lg) = Inr (recs ! i)
           \<and> ts ! i \<le> now
           \<and> (\<forall>j. i < j \<and> j < length recs \<longrightarrow> now < ts ! j)"
proof -
  define k where "k = length (takeWhile (\<lambda>t. t \<le> now) ts)"
  from parsed have "length (map (epoch_time_of strptime mktime key) recs) = length (map Inr ts)"
    by simp
  then have len: "length ts = length recs"
    by simp
  with nonempty obtain t ts' where ts: "ts = t # ts'"
    by (cases ts) auto
  with first have k_pos: "0 < k"
    by (simp add: k_def)
  have k_le: "k \<le> length recs"
    unfolding k_def len [symmetric] by (rule length_takeWhile_le)
  have scan: "fst (scan_epochs strptime mktime key now recs 0 (lg @ [Debug ''current time: '' now])) = Inr k"
    using scan_epochs_index [OF parsed, of now 0] by (simp add: k_def)
  from k_pos have pred: "int k - 1 = int (k - 1)"
    by simp
  from k_pos k_le have in_range: "k - 1 < length recs"
    by simp
  have "fst (current_location strptime mktime now recs key lg) = py_index recs (int (k - 1))"
    using current_location_index [OF scan] unfolding pred .
  also have "\<dots> = Inr (recs ! (k - 1))"
    using in_range by (rule py_index_nat)
  finally have result: "fst (current_location strptime mktime now recs key lg) = Inr (recs ! (k - 1))" .
  from k_pos have inside: "k - 1 < length (takeWhile (\<lambda>t. t \<le> now) ts)"
    by (simp add: k_def)
  then have "takeWhile (\<lambda>t. t \<le> now) ts ! (k - 1) \<in> set (takeWhile (\<lambda>t. t \<le> now) ts)"
    by (rule nth_mem)
  moreover from inside have "takeWhile (\<lambda>t. t \<le> now) ts ! (k - 1) = ts ! (k - 1)"
    by (rule takeWhile_nth)
  ultimately have "ts ! (k - 1) \<in> set (takeWhile (\<lambda>t. t \<le> now) ts)"
    by simp
  then have past: "ts ! (k - 1) \<le> now"
    by (rule set_takeWhileD [THEN conjunct2])
  have later: "now < ts ! j" if "k - 1 < j" "j < length recs" for j
  proof -
    from that k_pos have kj: "k \<le> j" and k_lt: "k < length ts"
      by (simp_all add: len)
    from k_lt have "\<not> ts ! k \<le> now"
      unfolding k_def by (rule nth_length_takeWhile)
    moreover from that(2) have "j < length ts"
      by (simp add: len)
    with ascending kj have "ts ! k \<le> ts ! j"
      by (rule sorted_nth_mono)
    ultimately show ?thesis by simp
  qed
  show ?thesis
  proof (intro exI conjI allI impI)
    show "k - 1 < length recs" by (rule in_range)
    show "fst (current_location strptime mktime now recs key lg) = Inr (recs ! (k - 1))"
      by (rule result)
    show "ts ! (k - 1) \<le> now" by (rule past)
  next
    fix j assume "k - 1 < j \<and> j < length recs"
    then show "now < ts ! j" by (simp add: later)
  qed
qed

theorem current_location_most_recent_witness:
  "[rec_2024, rec_2034] \<noteq> []
   \<and> map (epoch_time_of strptime_epoch mktime_utc ''epoch'') [rec_2024, rec_2034]
       = map Inr [1707912000, 2023531200]
   \<and> sorted [1707912000, 2023531200 :: real]
   \<and> hd [1707912000, 2023531200 :: real] \<le> 1800000000
   \<and> fst (current_location strptime_epoch mktime_utc 1800000000 [rec_2024, rec_2034] ''epoch'' [])
       = Inr rec_2024"
proof -
  have parsed: "map (epoch_time_of strptime_epoch mktime_utc ''epoch'') [rec_2024, rec_2034]
       = map Inr [1707912000, 2023531200]"
    by (simp add: epoch_time_2024 epoch_time_2034)
  have ascending: "sorted [1707912000, 2023531200 :: real]"
    by simp
  have first: "hd [1707912000, 2023531200 :: real] \<le> 1800000000"
    by simp
  have "[rec_2024, rec_2034] \<noteq> []"
    by simp
  from current_location_most_recent [OF this parsed ascending first, of "[]"]
  obtain i where i: "i < length [rec_2024, rec_2034]"
    and res: "fst (current_location strptime_epoch mktime_utc 1800000000 [rec_2024, rec_2034] ''epoch'' [])
       = Inr ([rec_2024, rec_2034] ! i)"
    and past: "[1707912000, 2023531200 :: real] ! i \<le> 1800000000"
    by blast
  from i have "i = 0 \<or> i = 1" by auto
  with past have "i = 0" by auto
  with res parsed show ?thesis by simp
qed

text \<open>
  C2. When the epoch of the first record is strictly after the current time, the loop
  breaks with \<^verbatim>\<open>curr_index = 0\<close> and the function returns \<^verbatim>\<open>list_of_dicts[-1]\<close>,
  the last record of the list. A list of one record whose epoch parses is answered
  with that record, whether its epoch is before or after the current time.
\<close>

theorem current_location_wraparound:
  assumes parsed: "epoch_time_of strptime mktime key item = Inr t"
  shows "(now < t \<longrightarrow>
            fst (current_location strptime mktime now (item # items) key lg)
              = py_index (item # items) (0 - 1)
            \<and> py_index (item # items) (0 - 1) = Inr (last (item # items)))
         \<and> fst (current_location strptime mktime now [item] key lg) = Inr item"
proof (intro conjI impI)
  assume future: "now < t"
  with parsed
  have "fst (scan_epochs strptime mktime key now (item # items) 0
               (lg @ [Debug ''current time: '' now])) = Inr 0"
    by simp
  from current_location_index [OF this]
  show "fst (current_location strptime mktime now (item # items) key lg)
          = py_index (item # items) (0 - 1)"
    by simp
  show "py_index (item # items) (0 - 1) = Inr (last (item # items))"
    using py_index_minus_one [of "item # items"] by simp
next
  show "fst (current_location strptime mktime now [item] key lg) = Inr item"
  proof (cases "now < t")
    case True
    with parsed
    have "fst (scan_epochs strptime mktime key now [item] 0
                 (lg @ [Debug ''current time: '' now])) = Inr 0"
      by simp
    from current_location_index [OF this] py_index_minus_one [of "[item]"]
    show ?thesis by simp
  next
    case False
    with parsed
    have "fst (scan_epochs strptime mktime key now [item] 0
                 (lg @ [Debug ''current time: '' now])) = Inr 1"
      by simp
    from current_location_index [OF this] py_index_nat [of 0 "[item]"]
    show ?thesis by simp
  qed
qed

theorem current_location_wraparound_witness:
  "epoch_time_of strptime_epoch mktime_utc ''epoch'' rec_2024 = Inr 1707912000
   \<and> fst (current_location strptime_epoch mktime_utc 0 [rec_2024, rec_2034] ''epoch'' [])
       = Inr rec_2034
   \<and> fst (current_location strptime_epoch mktime_utc 0 [rec_2024] ''epoch'' []) = Inr rec_2024
   \<and> fst (current_location strptime_epoch mktime_utc 1800000000 [rec_2024] ''epoch'' []) = Inr rec_2024"
  using current_location_wraparound [OF epoch_time_2024, of 0 "[rec_2034]" "[]"]
    current_location_wraparound [OF epoch_time_2024, of 1800000000 "[]" "[]"]
  by (simp add: epoch_time_2024)

text \<open>
  C3. When the list is not empty and \<^verbatim>\<open>strptime\<close> rejects the epoch string of every
  record, \<^verbatim>\<open>current_location\<close> raises nothing: the \<^verbatim>\<open>ValueError\<close> is caught, one
  error entry is logged after the debug entry of the current time, and the empty
  dictionary is returned. The epoch \<^verbatim>\<open>2024-045\<close>, with no time of day, is such a string.
\<close>

theorem current_location_unparsable:
  assumes nonempty: "recs \<noteq> []"
    and malformed: "\<forall>r \<in> set recs. epoch_time_of strptime mktime key r = Inl ValueError"
  shows "current_location strptime mktime now recs key lg
           = (Inr Map.empty, lg @ [Debug ''current time: '' now, Error time_error_msg])"
proof -
  from nonempty obtain r post where recs: "recs = r # post"
    by (cases recs) auto
  with malformed have "epoch_time_of strptime mktime key r = Inl ValueError"
    by simp
  with recs show ?thesis
    by (simp add: current_location_def)
qed

theorem current_location_unparsable_witness:
  "[[''epoch'' \<mapsto> Str ''2024-045'']] \<noteq> []
   \<and> epoch_time_of strptime_epoch mktime_utc ''epoch'' [''epoch'' \<mapsto> Str ''2024-045'']
       = Inl ValueError
   \<and> current_location strptime_epoch mktime_utc 1800000000 [[''epoch'' \<mapsto> Str ''2024-045'']] ''epoch'' []
       = (Inr Map.empty, [Debug ''current time: '' 1800000000, Error time_error_msg])"
  using current_location_unparsable [of "[[''epoch'' \<mapsto> Str ''2024-045'']]" strptime_epoch mktime_utc "''epoch''" 1800000000 "[]"]
  by (simp add: epoch_time_malformed)

text \<open>
  C10. On the empty list the loop body never runs, \<^verbatim>\<open>curr_index\<close> stays 0 and the
  access \<^verbatim>\<open>list_of_dicts[-1]\<close> raises \<^verbatim>\<open>IndexError\<close>, which nothing catches: the
  function returns neither the empty dictionary nor a record.
\<close>

theorem current_location_empty_list:
  "current_location strptime mktime now [] key lg
     = (Inl IndexError, lg @ [Debug ''current time: '' now])"
  by (simp add: current_location_def py_index_Nil)

section \<open>Properties of the location estimator\<close>

subsection \<open>Reading the hour and the minute\<close>

lemma digit_not_space: "is_digit c \<Longrightarrow> \<not> is_space c"
  by (simp add: is_digit_def is_space_def Let_def)

lemma strip_digits: "is_digit a \<Longrightarrow> is_digit b \<Longrightarrow> strip [a, b] = [a, b]"
  by (simp add: strip_def digit_not_space)

lemma digit_not_sign: "is_digit c \<Longrightarrow> c \<noteq> CHR ''+'' \<and> c \<noteq> CHR ''-''"
  by (auto simp: is_digit_def)

lemma py_int_two_digits:
  assumes "is_digit a" and "is_digit b"
  shows "py_int [a, b] = Some (10 * digit_val a + digit_val b)"
  using assms digit_not_sign [of a]
  by (simp add: py_int_def strip_digits)

lemma slice_two:
  "i + 2 \<le> length s \<Longrightarrow> slice i (i + 2) s = [s ! i, s ! (i + 1)]"
proof -
  assume len: "i + 2 \<le> length s"
  then have "drop i s = s ! i # drop (Suc i) s" and "drop (Suc i) s = s ! Suc i # drop (Suc (Suc i)) s"
    by (simp_all add: Cons_nth_drop_Suc)
  then show ?thesis
    by (simp add: slice_def numeral_2_eq_2)
qed

lemma slice_short: "length s \<le> i \<Longrightarrow> slice i j s = []"
  by (simp add: slice_def)

lemma py_int_empty: "py_int [] = None"
  by (simp add: py_int_def strip_def)

lemma int_digits_bad:
  "c \<in> set s \<Longrightarrow> \<not> is_digit c \<Longrightarrow> c \<noteq> CHR ''_'' \<Longrightarrow> int_digits prev acc s = None"
  by (induction prev acc s rule: int_digits.induct) auto

lemma set_strip: "c \<in> set s \<Longrightarrow> \<not> is_space c \<Longrightarrow> c \<in> set (strip s)"
proof -
  assume c: "c \<in> set s" and ns: "\<not> is_space c"
  have drop: "c \<in> set (dropWhile is_space t)" if "c \<in> set t" for t
    using that ns by (induction t) auto
  from c have "c \<in> set (rev (dropWhile is_space s))"
    by (simp add: drop)
  then have "c \<in> set (dropWhile is_space (rev (dropWhile is_space s)))"
    by (rule drop)
  then show ?thesis
    by (simp add: strip_def)
qed

lemma py_int_bad:
  assumes "c \<in> set s" and "\<not> int_char c"
  shows "py_int s = None"
proof -
  from assms have c: "c \<in> set (strip s)" and nd: "\<not> is_digit c" and nu: "c \<noteq> CHR ''_''"
    and np: "c \<noteq> CHR ''+''" and nm: "c \<noteq> CHR ''-''"
    by (auto simp: int_char_def set_strip)
  show ?thesis
  proof (cases "strip s")
    case Nil
    then show ?thesis by (simp add: py_int_def)
  next
    case (Cons d ds)
    with c np nm have in_tail: "d = CHR ''+'' \<or> d = CHR ''-'' \<Longrightarrow> c \<in> set ds"
      by auto
    from c Cons have whole: "c \<in> set (d # ds)" by simp
    show ?thesis
      using Cons in_tail int_digits_bad [OF _ nd nu, of ds False 0]
        int_digits_bad [OF whole nd nu, of False 0]
      by (auto simp: py_int_def)
  qed
qed

lemma find_location_parsed:
  assumes "py_int (slice 9 11 epoch) = Some hrs" and "py_int (slice 12 14 epoch) = Some mins"
  shows "find_location reverse x y z epoch lg = locate reverse x y z hrs mins lg"
  using assms by (simp add: find_location_def)

lemma hour_minute_fields:
  assumes "14 \<le> length epoch"
    and "is_digit (epoch ! 9)" and "is_digit (epoch ! 10)"
    and "is_digit (epoch ! 12)" and "is_digit (epoch ! 13)"
  shows "py_int (slice 9 11 epoch) = Some (10 * digit_val (epoch ! 9) + digit_val (epoch ! 10))"
    and "py_int (slice 12 14 epoch) = Some (10 * digit_val (epoch ! 12) + digit_val (epoch ! 13))"
proof -
  from assms(1) have "slice 9 (9 + 2) epoch = [epoch ! 9, epoch ! (9 + 1)]"
    by (intro slice_two) simp
  then have "slice 9 11 epoch = [epoch ! 9, epoch ! 10]"
    by simp
  with assms show "py_int (slice 9 11 epoch) = Some (10 * digit_val (epoch ! 9) + digit_val (epoch ! 10))"
    by (simp add: py_int_two_digits)
  from assms(1) have "slice 12 (12 + 2) epoch = [epoch ! 12, epoch ! (12 + 1)]"
    by (intro slice_two) simp
  then have "slice 12 14 epoch = [epoch ! 12, epoch ! 13]"
    by simp
  with assms show "py_int (slice 12 14 epoch) = Some (10 * digit_val (epoch ! 12) + digit_val (epoch ! 13))"
    by (simp add: py_int_two_digits)
qed

lemma test_epoch_fields:
  "14 \<le> length ''2024-001T12:00:00.000Z''"
  "is_digit (''2024-001T12:00:00.000Z'' ! 9)" "is_digit (''2024-001T12:00:00.000Z'' ! 10)"
  "is_digit (''2024-001T12:00:00.000Z'' ! 12)" "is_digit (''2024-001T12:00:00.000Z'' ! 13)"
  by (simp_all add: is_digit_def)

lemma find_location_ValueError:
  "py_int (slice 9 11 epoch) = None \<or> py_int (slice 12 14 epoch) = None \<Longrightarrow>
   find_location reverse x y z epoch lg = (Inr [], lg @ [Error location_error_msg])"
  by (auto simp: find_location_def split: option.split)

lemma find_location_short:
  assumes "length epoch \<le> 12"
  shows "find_location reverse x y z epoch lg = (Inr [], lg @ [Error location_error_msg])"
proof -
  from assms have "slice 12 14 epoch = []"
    by (rule slice_short)
  then have "py_int (slice 12 14 epoch) = None"
    by (simp add: py_int_empty)
  then show ?thesis
    by (simp add: find_location_ValueError)
qed

lemma hour_99: "py_int (slice 9 11 ''2024-001T99:00:00.000Z'') = Some 99"
  and minute_00: "py_int (slice 12 14 ''2024-001T99:00:00.000Z'') = Some 0"
  by code_simp+

lemma non_numeric_hour: "\<not> int_char CHR ''h''"
  by (simp add: int_char_def is_digit_def is_space_def)

lemma separator_not_space: "py_int [CHR 0x1C, CHR ''5''] = None"
  and no_break_space: "py_int [CHR 0xA0, CHR ''5''] = Some 5"
  by code_simp+

lemma separator_epoch:
  "py_int (slice 9 11 (''2024-001T'' @ [CHR 0x1C] @ ''5:00:00'')) = None"
  and no_break_space_epoch:
  "py_int (slice 9 11 (''2024-001T'' @ [CHR 0xA0] @ ''5:00:00'')) = Some 5"
  "py_int (slice 12 14 (''2024-001T'' @ [CHR 0xA0] @ ''5:00:00'')) = Some 0"
  by code_simp+

subsection \<open>Coordinates in range\<close>

text \<open>
  On numbers whose sum of squares is below the overflow threshold nothing in the
  arithmetic of \<^verbatim>\<open>find_location\<close> raises, and no sum is infinite.
\<close>

lemma abs_le_square: "\<bar>real_of_int n\<bar> \<le> (real_of_int n)\<^sup>2"
proof (cases "n = 0")
  case True
  then show ?thesis by simp
next
  case False
  then have "1 \<le> \<bar>n\<bar>" by simp
  then have "\<bar>n\<bar> * 1 \<le> \<bar>n\<bar> * \<bar>n\<bar>"
    by (intro mult_left_mono) simp_all
  then have "\<bar>n\<bar> \<le> n\<^sup>2"
    by (simp add: power2_eq_square abs_mult_self_eq)
  then have "real_of_int \<bar>n\<bar> \<le> real_of_int (n\<^sup>2)"
    by (simp only: of_int_le_iff)
  then show ?thesis by simp
qed

lemma to_float_in_range:
  assumes "is_number v" and "(num_value v)\<^sup>2 < float_overflow"
  shows "to_float v = Inr (float_of v)"
proof (cases v)
  case (PyInt n)
  with assms(2) abs_le_square [of n] have "\<bar>real_of_int n\<bar> < float_overflow"
    by simp
  with PyInt show ?thesis
    by (simp add: int_to_float_def)
qed (use assms in simp_all)

lemma latitude_in_range:
  assumes x: "is_number x" and y: "is_number y" and z: "is_number z"
    and range: "(num_value x)\<^sup>2 + (num_value y)\<^sup>2 + (num_value z)\<^sup>2 < float_overflow"
  shows "latitude_of x y z
           = Inr (math_degrees (float_atan2 (float_of z)
                    (Finite (Fin (sqrt ((num_value x)\<^sup>2 + (num_value y)\<^sup>2))))))"
proof -
  have nxy: "0 \<le> (num_value x)\<^sup>2 + (num_value y)\<^sup>2"
    by (intro add_nonneg_nonneg zero_le_power2)
  have nz: "0 \<le> (num_value z)\<^sup>2"
    by (rule zero_le_power2)
  note rxy = sum_part_less [OF nz range]
  from sum_squares2_value [OF x y rxy]
  obtain s where s: "sum_squares2 x y = Inr s"
    and vs: "is_value s ((num_value x)\<^sup>2 + (num_value y)\<^sup>2)"
    by (elim exE conjE)
  from s math_sqrt_value [OF vs nxy rxy] to_float_in_range [OF z sum_part_less' [OF nxy range]]
  show ?thesis
    by (simp add: latitude_of_def ebind_def)
qed

lemma longitude_in_range:
  assumes x: "is_number x" and y: "is_number y"
    and rx: "(num_value x)\<^sup>2 < float_overflow" and ry: "(num_value y)\<^sup>2 < float_overflow"
  shows "longitude_of x y hrs mins
           = Inr (float_value (math_degrees (float_atan2 (float_of y) (Finite (float_of x))))
                  - (real_of_int (hrs - 12) + real_of_int mins / 60) * (360 / 24) + 19)"
  using to_float_in_range [OF x rx] to_float_in_range [OF y ry]
  by (simp add: longitude_of_def ebind_def)

lemma altitude_in_range:
  assumes x: "is_number x" and y: "is_number y" and z: "is_number z"
    and range: "(num_value x)\<^sup>2 + (num_value y)\<^sup>2 + (num_value z)\<^sup>2 < float_overflow"
  shows "altitude_of x y z
           = Inr (Finite (Fin (sqrt ((num_value x)\<^sup>2 + (num_value y)\<^sup>2 + (num_value z)\<^sup>2)
                               - MEAN_EARTH_RADIUS)))"
  by (simp add: altitude_of_def ebind_def norm3_in_range [OF assms])

lemma locate_in_range:
  assumes x: "is_number x" and y: "is_number y" and z: "is_number z"
    and range: "(num_value x)\<^sup>2 + (num_value y)\<^sup>2 + (num_value z)\<^sup>2 < float_overflow"
  shows "locate reverse x y z hrs mins lg =
     (let latitude = math_degrees (float_atan2 (float_of z)
                       (Finite (Fin (sqrt ((num_value x)\<^sup>2 + (num_value y)\<^sup>2)))));
          longitude0 = float_value (math_degrees (float_atan2 (float_of y) (Finite (float_of x))))
                      - (real_of_int (hrs - 12) + real_of_int mins / 60) * (360 / 24) + 19;
          lg1 = lg @ [Debug ''longitude before conversion'' longitude0];
          longitude = wrap_longitude longitude0;
          altitude = Finite (Fin (sqrt ((num_value x)\<^sup>2 + (num_value y)\<^sup>2 + (num_value z)\<^sup>2)
                               - MEAN_EARTH_RADIUS))
      in (case reverse latitude (Fin longitude) of
            Inl e \<Rightarrow> (Inl e, lg1)
          | Inr geolocation \<Rightarrow>
              (Inr [StrOf (Finite latitude), StrOf (Finite (Fin longitude)), StrOf altitude,
                    Text (case geolocation of Some address \<Rightarrow> address | None \<Rightarrow> ''Over Ocean'')],
               lg1)))"
proof -
  have nx: "0 \<le> (num_value x)\<^sup>2" and ny: "0 \<le> (num_value y)\<^sup>2" and nz: "0 \<le> (num_value z)\<^sup>2"
    by (rule zero_le_power2)+
  note rxy = sum_part_less [OF nz range]
  note rx = sum_part_less [OF ny rxy] and ry = sum_part_less' [OF nx rxy]
  show ?thesis
    by (simp only: locate_def latitude_in_range [OF assms] longitude_in_range [OF x y rx ry]
        altitude_in_range [OF assms] sum.case Let_def)
qed

lemma locate_longitude_link:
  assumes "fst (locate reverse x y z hrs mins lg) = Inr [lat, lon, alt, place]"
  shows "\<exists>before. snd (locate reverse x y z hrs mins lg)
                     = lg @ [Debug ''longitude before conversion'' before]
                   \<and> lon = StrOf (Finite (Fin (wrap_longitude before)))"
proof (cases "latitude_of x y z")
  case (Inl e)
  with assms show ?thesis by (simp add: locate_def)
next
  case lat: (Inr latitude)
  show ?thesis
  proof (cases "longitude_of x y hrs mins")
    case (Inl e)
    with lat assms show ?thesis by (simp add: locate_def)
  next
    case lon: (Inr longitude0)
    show ?thesis
    proof (cases "altitude_of x y z")
      case (Inl e)
      with lat lon assms show ?thesis by (simp add: locate_def Let_def)
    next
      case alt: (Inr altitude)
      show ?thesis
      proof (cases "reverse latitude (Fin (wrap_longitude longitude0))")
        case (Inl e)
        with lat lon alt assms show ?thesis by (simp add: locate_def Let_def)
      next
        case (Inr geolocation)
        with lat lon alt assms show ?thesis by (simp add: locate_def Let_def)
      qed
    qed
  qed
qed

lemma find_location_longitude_link:
  assumes "fst (find_location reverse x y z epoch lg) = Inr [lat, lon, alt, place]"
  shows "\<exists>before. snd (find_location reverse x y z epoch lg)
                     = lg @ [Debug ''longitude before conversion'' before]
                   \<and> lon = StrOf (Finite (Fin (wrap_longitude before)))"
proof (cases "py_int (slice 9 11 epoch)")
  case None
  with assms show ?thesis by (simp add: find_location_def)
next
  case hrs: (Some hrs)
  show ?thesis
  proof (cases "py_int (slice 12 14 epoch)")
    case None
    with hrs assms show ?thesis by (simp add: find_location_def)
  next
    case (Some mins)
    with hrs assms locate_longitude_link [of reverse x y z hrs mins lg lat lon alt place]
    show ?thesis by (simp add: find_location_def)
  qed
qed

lemma test_coordinates_in_range:
  "(num_value (PyInt 4000))\<^sup>2 + (num_value (PyInt 1500))\<^sup>2 + (num_value (PyInt (- 5000)))\<^sup>2
     < float_overflow"
  by (simp add: float_overflow_def)

lemma test_hour: "10 * digit_val (''2024-001T12:00:00.000Z'' ! 9) + digit_val (''2024-001T12:00:00.000Z'' ! 10) = 12"
  and test_minute: "10 * digit_val (''2024-001T12:00:00.000Z'' ! 12) + digit_val (''2024-001T12:00:00.000Z'' ! 13) = 0"
  by (simp_all add: digit_val_def)

lemma unit_in_range:
  "(num_value (PyFloat (Fin 1)))\<^sup>2 + (num_value (PyFloat (Fin 0)))\<^sup>2 + (num_value (PyFloat (Fin 0)))\<^sup>2
     < float_overflow"
  by (simp add: float_overflow_def)

lemma locate_hour_99:
  "locate reverse (PyFloat (Fin 1)) (PyFloat (Fin 0)) (PyFloat (Fin 0)) 99 0 lg
     = (case reverse (Fin 0) (Fin (- 926)) of
          Inl e \<Rightarrow> (Inl e, lg @ [Debug ''longitude before conversion'' (- 1286)])
        | Inr geolocation \<Rightarrow>
            (Inr [StrOf (Finite (Fin 0)), StrOf (Finite (Fin (- 926))), StrOf (Finite (Fin (- 6377.1))),
                  Text (case geolocation of Some address \<Rightarrow> address | None \<Rightarrow> ''Over Ocean'')],
             lg @ [Debug ''longitude before conversion'' (- 1286)]))"
proof -
  have lat: "math_degrees (float_atan2 (float_of (PyFloat (Fin 0)))
               (Finite (Fin (sqrt ((num_value (PyFloat (Fin 1)))\<^sup>2 + (num_value (PyFloat (Fin 0)))\<^sup>2)))))
             = Fin 0"
    by simp
  have lon: "float_value (math_degrees (float_atan2 (float_of (PyFloat (Fin 0)))
               (Finite (float_of (PyFloat (Fin 1))))))
             - (real_of_int (99 - 12) + real_of_int 0 / 60) * (360 / 24) + 19 = - 1286"
    by simp
  have wrap: "wrap_longitude (- 1286) = - 926"
    by (simp add: wrap_longitude_def)
  have alt: "sqrt ((num_value (PyFloat (Fin 1)))\<^sup>2 + (num_value (PyFloat (Fin 0)))\<^sup>2
               + (num_value (PyFloat (Fin 0)))\<^sup>2) - MEAN_EARTH_RADIUS = - 6377.1"
    by (simp add: MEAN_EARTH_RADIUS_def)
  show ?thesis
    unfolding locate_in_range [OF _ _ _ unit_in_range, simplified is_number.simps, OF TrueI TrueI TrueI]
    by (simp only: Let_def lat lon wrap alt)
qed

subsection \<open>The formulas\<close>




subsection \<open>The longitude wrap\<close>

text \<open>
  C5. The wrap is one step: a value above 180 becomes \<open>- 180 + (v - 180)\<close>, a value
  below \<open>- 180\<close> becomes \<open>180 + (v + 180)\<close>, a value in between is unchanged; 190 gives
  \<open>- 170\<close> and \<open>- 190\<close> gives 170. It is not a reduction modulo 360: a value more than
  360 outside the interval stays outside it. Whenever \<^verbatim>\<open>find_location\<close> returns its
  four elements, the longitude among them is this wrap of the value it logged; for the
  hour field \<^verbatim>\<open>99\<close> that value is \<open>- 1286\<close> and the longitude \<open>- 926\<close>, outside
  \<open>[- 180, 180]\<close>.
\<close>

theorem wrap_longitude_single_step:
  "(180 < v \<longrightarrow> wrap_longitude v = - 180 + (v - 180))
   \<and> (v < - 180 \<longrightarrow> wrap_longitude v = 180 + (v + 180))
   \<and> (- 180 \<le> v \<and> v \<le> 180 \<longrightarrow> wrap_longitude v = v)
   \<and> wrap_longitude 190 = - 170 \<and> wrap_longitude (- 190) = 170
   \<and> (540 < v \<longrightarrow> 180 < wrap_longitude v)
   \<and> (v < - 540 \<longrightarrow> wrap_longitude v < - 180)
   \<and> (fst (find_location reverse x y z epoch lg) = Inr [lat, lon, alt, place] \<longrightarrow>
        (\<exists>before.
           snd (find_location reverse x y z epoch lg)
             = lg @ [Debug ''longitude before conversion'' before]
           \<and> lon = StrOf (Finite (Fin (wrap_longitude before)))))
   \<and> find_location reverse (PyFloat (Fin 1)) (PyFloat (Fin 0)) (PyFloat (Fin 0))
         ''2024-001T99:00:00.000Z'' lg
       = (case reverse (Fin 0) (Fin (- 926)) of
            Inl e \<Rightarrow> (Inl e, lg @ [Debug ''longitude before conversion'' (- 1286)])
          | Inr geolocation \<Rightarrow>
              (Inr [StrOf (Finite (Fin 0)), StrOf (Finite (Fin (- 926))),
                    StrOf (Finite (Fin (- 6377.1))),
                    Text (case geolocation of
                            Some address \<Rightarrow> address | None \<Rightarrow> ''Over Ocean'')],
               lg @ [Debug ''longitude before conversion'' (- 1286)]))"
proof (intro conjI impI)
  show "wrap_longitude 190 = - 170" "wrap_longitude (- 190) = 170"
    by (simp_all add: wrap_longitude_def)
next
  assume "fst (find_location reverse x y z epoch lg) = Inr [lat, lon, alt, place]"
  then show "\<exists>before.
           snd (find_location reverse x y z epoch lg)
             = lg @ [Debug ''longitude before conversion'' before]
           \<and> lon = StrOf (Finite (Fin (wrap_longitude before)))"
    by (rule find_location_longitude_link)
next
  show "find_location reverse (PyFloat (Fin 1)) (PyFloat (Fin 0)) (PyFloat (Fin 0))
         ''2024-001T99:00:00.000Z'' lg
       = (case reverse (Fin 0) (Fin (- 926)) of
            Inl e \<Rightarrow> (Inl e, lg @ [Debug ''longitude before conversion'' (- 1286)])
          | Inr geolocation \<Rightarrow>
              (Inr [StrOf (Finite (Fin 0)), StrOf (Finite (Fin (- 926))),
                    StrOf (Finite (Fin (- 6377.1))),
                    Text (case geolocation of
                            Some address \<Rightarrow> address | None \<Rightarrow> ''Over Ocean'')],
               lg @ [Debug ''longitude before conversion'' (- 1286)]))"
    unfolding find_location_parsed [OF hour_99 minute_00] by (rule locate_hour_99)
qed (simp_all add: wrap_longitude_def)

theorem wrap_longitude_single_step_witness:
  "wrap_longitude 200 = - 160 \<and> wrap_longitude (- 200) = 160 \<and> wrap_longitude 45 = 45
   \<and> 180 < wrap_longitude 600 \<and> wrap_longitude (- 600) < - 180
   \<and> fst (find_location (\<lambda>lat lon. Inr None) (PyFloat (Fin 1)) (PyFloat (Fin 0)) (PyFloat (Fin 0))
           ''2024-001T99:00:00.000Z'' [])
       = Inr [StrOf (Finite (Fin 0)), StrOf (Finite (Fin (- 926))), StrOf (Finite (Fin (- 6377.1))),
              Text ''Over Ocean'']
   \<and> (\<exists>before.
         snd (find_location (\<lambda>lat lon. Inr None) (PyFloat (Fin 1)) (PyFloat (Fin 0)) (PyFloat (Fin 0))
               ''2024-001T99:00:00.000Z'' [])
           = [Debug ''longitude before conversion'' before]
         \<and> StrOf (Finite (Fin (- 926))) = StrOf (Finite (Fin (wrap_longitude before))))"
proof -
  note t = wrap_longitude_single_step [of _ "\<lambda>lat lon. Inr None" "PyFloat (Fin 1)" "PyFloat (Fin 0)"
      "PyFloat (Fin 0)" "''2024-001T99:00:00.000Z''" "[]" "StrOf (Finite (Fin 0))"
      "StrOf (Finite (Fin (- 926)))" "StrOf (Finite (Fin (- 6377.1)))" "Text ''Over Ocean''"]
  have w1: "wrap_longitude 200 = - 160"
    using t [of 200] by simp
  have w2: "wrap_longitude (- 200) = 160"
    using t [of "- 200"] by simp
  have w3: "wrap_longitude 45 = 45"
    using t [of 45] by simp
  have w4: "180 < wrap_longitude 600"
    using t [of 600] by simp
  have w5: "wrap_longitude (- 600) < - 180"
    using t [of "- 600"] by simp
  from t [of 0] have run: "find_location (\<lambda>lat lon. Inr None) (PyFloat (Fin 1)) (PyFloat (Fin 0))
      (PyFloat (Fin 0)) ''2024-001T99:00:00.000Z'' []
       = (Inr [StrOf (Finite (Fin 0)), StrOf (Finite (Fin (- 926))), StrOf (Finite (Fin (- 6377.1))),
               Text ''Over Ocean''],
          [Debug ''longitude before conversion'' (- 1286)])"
    by (simp only: sum.case option.case append_Nil) 
  then have res: "fst (find_location (\<lambda>lat lon. Inr None) (PyFloat (Fin 1)) (PyFloat (Fin 0))
      (PyFloat (Fin 0)) ''2024-001T99:00:00.000Z'' [])
       = Inr [StrOf (Finite (Fin 0)), StrOf (Finite (Fin (- 926))), StrOf (Finite (Fin (- 6377.1))),
              Text ''Over Ocean'']"
    by (simp only: fst_conv)
  from t [of 0, THEN conjunct2, THEN conjunct2, THEN conjunct2, THEN conjunct2, THEN conjunct2,
      THEN conjunct2, THEN conjunct2, THEN conjunct1, THEN mp, OF res]
  have link: "\<exists>before.
         snd (find_location (\<lambda>lat lon. Inr None) (PyFloat (Fin 1)) (PyFloat (Fin 0)) (PyFloat (Fin 0))
               ''2024-001T99:00:00.000Z'' [])
           = [Debug ''longitude before conversion'' before]
         \<and> StrOf (Finite (Fin (- 926))) = StrOf (Finite (Fin (wrap_longitude before)))"
    by (simp only: append_Nil)
  from w1 w2 w3 w4 w5 res link show ?thesis
    by (intro conjI)
qed

text \<open>
  For an hour from 0 to 23 and a minute from 0 to 59 the value before the wrap is
  within 360 of the interval, and a returned longitude lies in \<open>[- 180, 180]\<close>.
\<close>

lemma float_atan2_bounds:
  "- pi \<le> float_value (float_atan2 y x) \<and> float_value (float_atan2 y x) \<le> pi"
proof (cases x)
  case PosInf
  then show ?thesis
    using pi_gt_zero by (cases "sign_bit y") simp_all
next
  case (Finite xf)
  have b: "- (pi / 2) < arctan (float_value y / float_value xf)"
    "arctan (float_value y / float_value xf) < pi / 2"
    by (rule arctan_lbound, rule arctan_ubound)
  have pos: "0 < pi" by (rule pi_gt_zero)
  consider (zero) "float_value y = 0"
    | (axis) "float_value y \<noteq> 0" "float_value xf = 0"
    | (right) "float_value y \<noteq> 0" "0 < float_value xf"
    | (upper) "0 < float_value y" "float_value xf < 0"
    | (lower) "float_value y < 0" "float_value xf < 0"
    by linarith
  then show ?thesis
  proof cases
    case zero
    then have "float_value (float_atan2 y x) = - pi \<or> float_value (float_atan2 y x) = pi
        \<or> float_value (float_atan2 y x) = 0"
      using Finite by simp
    with pos show ?thesis by linarith
  next
    case axis
    then have "float_value (float_atan2 y x) = pi / 2 \<or> float_value (float_atan2 y x) = - (pi / 2)"
      using Finite by simp
    with pos show ?thesis by linarith
  next
    case right
    then have "float_value (float_atan2 y x) = arctan (float_value y / float_value xf)"
      using Finite by simp
    with b pos show ?thesis by linarith
  next
    case upper
    then have "float_value y / float_value xf < 0"
      by (simp add: divide_pos_neg)
    then have "arctan (float_value y / float_value xf) < 0"
      by (simp add: arctan_less_zero_iff)
    moreover from upper have "float_value (float_atan2 y x) = arctan (float_value y / float_value xf) + pi"
      using Finite by simp
    ultimately show ?thesis
      using b pos by linarith
  next
    case lower
    then have "0 < float_value y / float_value xf"
      by (simp add: divide_neg_neg)
    then have "0 < arctan (float_value y / float_value xf)"
      by (simp add: zero_less_arctan_iff)
    moreover from lower have "float_value (float_atan2 y x) = arctan (float_value y / float_value xf) - pi"
      using Finite by simp
    ultimately show ?thesis
      using b pos by linarith
  qed
qed

lemma math_degrees_value: "float_value (math_degrees f) = float_value f * (180 / pi)"
  by (cases f) simp_all

lemma degrees_atan2_bounds:
  "- 180 \<le> float_value (math_degrees (float_atan2 y x))
   \<and> float_value (math_degrees (float_atan2 y x)) \<le> 180"
proof -
  have pos: "0 < pi" by (rule pi_gt_zero)
  from float_atan2_bounds [of y x]
  have "- pi \<le> float_value (float_atan2 y x)" "float_value (float_atan2 y x) \<le> pi"
    by simp_all
  with pos have "- 180 * pi \<le> float_value (float_atan2 y x) * 180"
    "float_value (float_atan2 y x) * 180 \<le> 180 * pi"
    by simp_all
  with pos show ?thesis
    by (simp add: math_degrees_value pos_le_divide_eq pos_divide_le_eq)
qed

lemma wrap_longitude_in_range:
  assumes "- 540 \<le> v" and "v \<le> 540"
  shows "- 180 \<le> wrap_longitude v \<and> wrap_longitude v \<le> 180"
  using assms by (simp add: wrap_longitude_def)

lemma find_location_longitude_in_range:
  assumes parsed: "py_int (slice 9 11 epoch) = Some hrs" "py_int (slice 12 14 epoch) = Some mins"
    and clock: "0 \<le> hrs" "hrs \<le> 23" "0 \<le> mins" "mins \<le> 59"
    and result: "fst (find_location reverse x y z epoch lg) = Inr [lat, StrOf (Finite (Fin lon)), alt, place]"
  shows "- 180 \<le> lon \<and> lon \<le> 180"
proof -
  from result parsed
  have loc: "fst (locate reverse x y z hrs mins lg) = Inr [lat, StrOf (Finite (Fin lon)), alt, place]"
    by (simp add: find_location_parsed)
  then obtain longitude0 where l0: "longitude_of x y hrs mins = Inr longitude0"
    by (cases "longitude_of x y hrs mins"; cases "latitude_of x y z") (simp_all add: locate_def)
  from locate_longitude_link [OF loc] obtain before
    where "snd (locate reverse x y z hrs mins lg) = lg @ [Debug ''longitude before conversion'' before]"
      and lon: "lon = wrap_longitude before"
    by auto
  moreover from loc l0
  have "snd (locate reverse x y z hrs mins lg) = lg @ [Debug ''longitude before conversion'' longitude0]"
    by (cases "latitude_of x y z"; cases "altitude_of x y z";
        cases "reverse (projr (latitude_of x y z)) (Fin (wrap_longitude longitude0))")
      (simp_all add: locate_def Let_def)
  ultimately have before: "before = longitude0"
    by simp
  from l0 obtain yf xf where "longitude0 = float_value (math_degrees (float_atan2 yf (Finite xf)))
          - (real_of_int (hrs - 12) + real_of_int mins / 60) * (360 / 24) + 19"
    by (auto simp: longitude_of_def ebind_def split: sum.splits)
  moreover from clock have "- 12 \<le> real_of_int (hrs - 12)" "real_of_int (hrs - 12) \<le> 11"
    "0 \<le> real_of_int mins" "real_of_int mins \<le> 59"
    by simp_all
  ultimately have "- 540 \<le> longitude0" "longitude0 \<le> 540"
    using degrees_atan2_bounds [of yf "Finite xf"] by simp_all
  then show ?thesis
    unfolding lon before by (rule wrap_longitude_in_range)
qed

subsection \<open>Malformed epoch strings\<close>



text \<open>
  A no-break space before the hour digit is white space to \<^verbatim>\<open>int()\<close>: the hour is 5
  and the result has four elements.
\<close>

lemma find_location_no_break_space:
  "\<exists>lat lon alt place.
     fst (find_location (\<lambda>lat lon. Inr None) (PyInt 4000) (PyInt 1500) (PyInt (- 5000))
            (''2024-001T'' @ [CHR 0xA0] @ ''5:00:00'') [])
     = Inr [lat, lon, alt, place]"
proof -
  have numbers: "is_number (PyInt 4000)" "is_number (PyInt 1500)" "is_number (PyInt (- 5000))"
    by simp_all
  show ?thesis
    unfolding find_location_parsed [OF no_break_space_epoch]
      locate_in_range [OF numbers test_coordinates_in_range]
    by (simp only: Let_def sum.case fst_conv) (intro exI, rule refl)
qed

end
